theory Spec2Isabelle
  imports Main
begin

section \<open>The annotation engine of api/generate-images.ts\<close>

text \<open>
  The file draws percentage labels over two base images. This theory embeds its four
  functions (\<open>drawTextWithShadow\<close>, \<open>generateAnimalImage\<close>, \<open>generateBrainImage\<close>,
  \<open>handler\<close>) as HOL functions. Promises are values of a sum type (\<open>Inl\<close> a rejection,
  \<open>Inr\<close> a fulfilment), the 2d context is an explicit state that every drawing call
  returns updated, and the canvas is the sequence of drawing calls it has received.
\<close>

subsection \<open>Values of the JavaScript side\<close>

text \<open>
  A thrown value is an \<open>Error\<close> with its message (the only part the code reads:
  \<open>err instanceof Error ? err.message : String(err)\<close>).
\<close>

datatype js_error = JsError (message: string)

text \<open>
  \<open>${n}\<close> for an integer \<open>n\<close>: decimal digits, a leading minus sign for a negative one.
  Percentages are integers here, as in the data model of the specification; fractional
  numbers and NaN are outside this embedding. The digits are exact up to
  \<open>Number.MAX_SAFE_INTEGER\<close>; above it JavaScript prints rounded digits or exponent
  notation (\<open>1e+21\<close>), a text that is not modelled: it is left unspecified, so that
  nothing can be proved about it.
\<close>

definition MAX_SAFE_INTEGER :: int where
  "MAX_SAFE_INTEGER = 9007199254740991"

definition digit :: "nat \<Rightarrow> char" where
  "digit k = ''0123456789'' ! k"

fun digits :: "nat \<Rightarrow> string" where
  "digits n = (if n < 10 then [digit n] else digits (n div 10) @ [digit (n mod 10)])"

definition numberToString :: "int \<Rightarrow> string" where
  "numberToString v =
     (if \<bar>v\<bar> \<le> MAX_SAFE_INTEGER
      then (if v < 0 then CHR ''-'' # digits (nat (- v)) else digits (nat v))
      else undefined)"

text \<open>
  A dataset (\<open>AnimalData\<close>, \<open>BrainData\<close>) is represented by what \<open>Object.entries(data)\<close>
  returns: its own properties as (name, value) pairs, in the object's property order.
  The interfaces promise four names each, but the handler passes \<open>req.body\<close> on as it
  arrives, so a list with fewer or other names is an input the functions can receive.
  The names of a JavaScript object are distinct.
\<close>

type_synonym dataset = "(string \<times> int) list"

definition wellformed :: "dataset \<Rightarrow> bool" where
  "wellformed d = distinct (map fst d)"

text \<open>
  Reading \<open>obj[name]\<close> on an object literal finds an own property, or a member that
  the literal inherits from \<open>Object.prototype\<close> (a function, or the prototype itself
  for \<open>__proto__\<close>), or nothing (\<open>undefined\<close>).
\<close>

datatype 'a property = Own 'a | Inherited | Undefined

definition objectPrototypeNames :: "string list" where
  "objectPrototypeNames =
     [''constructor'', ''__defineGetter__'', ''__defineSetter__'', ''hasOwnProperty'',
      ''__lookupGetter__'', ''__lookupSetter__'', ''isPrototypeOf'', ''propertyIsEnumerable'',
      ''toString'', ''valueOf'', ''__proto__'', ''toLocaleString'']"

definition lookup_literal :: "(string \<times> 'a) list \<Rightarrow> string \<Rightarrow> 'a property" where
  "lookup_literal literal name =
     (case map_of literal name of
        Some v \<Rightarrow> Own v
      | None \<Rightarrow> if name \<in> set objectPrototypeNames then Inherited else Undefined)"

text \<open>
  \<open>const { x, y } = positions[name]\<close>: an own entry gives its coordinates, an inherited
  member has neither field (both are \<open>undefined\<close>), and destructuring \<open>undefined\<close>
  throws a TypeError (the message is the engine's).
\<close>

definition destructureMessage :: string where
  "destructureMessage =
     ''Cannot destructure property 'x' of 'positions[name]' as it is undefined.''"

definition destructure_xy :: "(int \<times> int) property \<Rightarrow> js_error + (int option \<times> int option)" where
  "destructure_xy p =
     (case p of
        Own (x, y) \<Rightarrow> Inr (Some x, Some y)
      | Inherited \<Rightarrow> Inr (None, None)
      | Undefined \<Rightarrow> Inl (JsError destructureMessage))"

subsection \<open>The canvas\<close>

record image =
  width :: nat
  height :: nat
  pixels :: "nat list"

record context_state =
  font :: string
  fillStyle :: string
  textAlign :: string
  textBaseline :: string
  shadowColor :: string
  shadowBlur :: int
  shadowOffsetX :: int
  shadowOffsetY :: int

text \<open>
  A drawing call with its arguments; \<open>FillText\<close> also keeps the settings of the context
  at the moment of the call, which decide how the text is painted. A coordinate is
  \<open>None\<close> when the argument is \<open>undefined\<close> (the canvas then paints nothing and does
  not throw).
\<close>

datatype draw_call =
  DrawImage image int int
| FillText string "int option" "int option" context_state

record canvas =
  canvas_width :: nat
  canvas_height :: nat
  state :: context_state
  calls :: "draw_call list"

text \<open>The settings of a new 2d context (the defaults of the canvas API).\<close>

definition initial_state :: context_state where
  "initial_state =
     \<lparr>font = ''10px sans-serif'', fillStyle = ''#000000'', textAlign = ''start'',
      textBaseline = ''alphabetic'', shadowColor = ''rgba(0, 0, 0, 0)'', shadowBlur = 0,
      shadowOffsetX = 0, shadowOffsetY = 0\<rparr>"

definition createCanvas :: "nat \<Rightarrow> nat \<Rightarrow> canvas" where
  "createCanvas w h = \<lparr>canvas_width = w, canvas_height = h, state = initial_state, calls = []\<rparr>"

definition drawImage :: "canvas \<Rightarrow> image \<Rightarrow> int \<Rightarrow> int \<Rightarrow> canvas" where
  "drawImage ctx img dx dy = ctx\<lparr>calls := calls ctx @ [DrawImage img dx dy]\<rparr>"

definition fillText :: "canvas \<Rightarrow> string \<Rightarrow> int option \<Rightarrow> int option \<Rightarrow> canvas" where
  "fillText ctx text x y = ctx\<lparr>calls := calls ctx @ [FillText text x y (state ctx)]\<rparr>"

text \<open>
  \<open>canvas.toDataURL('image/png')\<close>: PNG is lossless, so the data URL is represented by
  its MIME type and the canvas it encodes.
\<close>

datatype data_url = DataURL (mime: string) (encoded: canvas)

definition toDataURL :: "canvas \<Rightarrow> string \<Rightarrow> data_url" where
  "toDataURL c type = DataURL type c"

subsection \<open>drawTextWithShadow\<close>

definition drawTextWithShadow ::
  "canvas \<Rightarrow> string \<Rightarrow> int option \<Rightarrow> int option \<Rightarrow> string \<Rightarrow> string \<Rightarrow> string \<Rightarrow> string \<Rightarrow> canvas" where
  "drawTextWithShadow ctx text x y font' fillStyle' textAlign' textBaseline' =
     (let ctx1 = ctx\<lparr>state := (state ctx)\<lparr>font := font', fillStyle := fillStyle',
                    textAlign := textAlign', textBaseline := textBaseline'\<rparr>\<rparr>;
          ctx2 = ctx1\<lparr>state := (state ctx1)\<lparr>shadowColor := ''rgba(0, 0, 0, 0.8)'',
                    shadowBlur := 10, shadowOffsetX := 0, shadowOffsetY := 0\<rparr>\<rparr>;
          ctx3 = fillText ctx2 text x y
      in ctx3\<lparr>state := (state ctx3)\<lparr>shadowColor := ''transparent'', shadowBlur := 0\<rparr>\<rparr>)"

subsection \<open>The two loops of a render\<close>

text \<open>
  Both render functions contain the same two loops over \<open>Object.entries(data)\<close>. The
  first keeps \<open>(highestName, maxPercentage)\<close>, starting from \<open>(null, -1)\<close>.
\<close>

fun findHighestLoop :: "dataset \<Rightarrow> string option \<times> int \<Rightarrow> string option \<times> int" where
  "findHighestLoop [] acc = acc"
| "findHighestLoop ((name, percentage) # entries) (highestName, maxPercentage) =
     (if percentage > maxPercentage
      then findHighestLoop entries (Some name, percentage)
      else findHighestLoop entries (highestName, maxPercentage))"

definition findHighest :: "dataset \<Rightarrow> string option \<times> int" where
  "findHighest entries = findHighestLoop entries (None, - 1)"

definition fontName :: string where
  "fontName = [CHR 0x22] @ ''Arial Bold'' @ [CHR 0x22]"

definition normalFontSize :: int where "normalFontSize = 36"
definition highestFontSize :: int where "highestFontSize = 40"
definition normalColor :: string where "normalColor = ''#FFFFFF''"
definition highestColor :: string where "highestColor = ''#FFFF00''"

text \<open>
  The second loop draws one label per entry. A throw inside it leaves the function, so
  the canvas drawn so far is lost: the result is the error alone.
\<close>

fun drawLabels ::
  "(string \<times> int \<times> int) list \<Rightarrow> string option \<Rightarrow> dataset \<Rightarrow> canvas \<Rightarrow> js_error + canvas" where
  "drawLabels positions highestName [] ctx = Inr ctx"
| "drawLabels positions highestName ((name, percentage) # entries) ctx =
     (let isHighest = (Some name = highestName);
          fontSize = (if isHighest then highestFontSize else normalFontSize);
          color = (if isHighest then highestColor else normalColor);
          font = numberToString fontSize @ ''px '' @ fontName;
          text = numberToString percentage @ ''%''
      in case destructure_xy (lookup_literal positions name) of
           Inl err \<Rightarrow> Inl err
         | Inr (x, y) \<Rightarrow>
             drawLabels positions highestName entries
               (drawTextWithShadow ctx text x y font color ''center'' ''middle''))"

subsection \<open>generateAnimalImage and generateBrainImage\<close>

definition animalPositions :: "(string \<times> int \<times> int) list" where
  "animalPositions =
     [(''lobo'', (250, 680)), (''aguia'', (750, 680)),
      (''tubarao'', (250, 970)), (''gato'', (750, 970))]"

definition brainPositions :: "(string \<times> int \<times> int) list" where
  "brainPositions =
     [(''razao'', (270, 480)), (''emocao'', (740, 480)),
      (''pensante'', (500, 310)), (''atuante'', (500, 710))]"

text \<open>
  \<open>loadImage\<close> fetches and decodes the base image; what it answers for a URL belongs to
  the world outside the file, so it is a parameter. The body of the \<open>try\<close> block is
  the same in both functions apart from the table of positions.
\<close>

definition renderBody ::
  "(string \<Rightarrow> js_error + image) \<Rightarrow> (string \<times> int \<times> int) list \<Rightarrow> string \<Rightarrow> dataset
     \<Rightarrow> js_error + data_url" where
  "renderBody loadImage positions baseImageUrl data =
     (case loadImage baseImageUrl of
        Inl err \<Rightarrow> Inl err
      | Inr img \<Rightarrow>
          (let canvas = createCanvas (width img) (height img);
               ctx = drawImage canvas img 0 0;
               (highestName, maxPercentage) = findHighest data
           in case drawLabels positions highestName data ctx of
                Inl err \<Rightarrow> Inl err
              | Inr ctx' \<Rightarrow> Inr (toDataURL ctx' ''image/png'')))"

definition generateAnimalImage ::
  "(string \<Rightarrow> js_error + image) \<Rightarrow> string \<Rightarrow> dataset \<Rightarrow> js_error + data_url" where
  "generateAnimalImage loadImage baseImageUrl data =
     (case renderBody loadImage animalPositions baseImageUrl data of
        Inl err \<Rightarrow> Inl (JsError (''Error during animal image processing: '' @ message err))
      | Inr url \<Rightarrow> Inr url)"

definition generateBrainImage ::
  "(string \<Rightarrow> js_error + image) \<Rightarrow> string \<Rightarrow> dataset \<Rightarrow> js_error + data_url" where
  "generateBrainImage loadImage baseImageUrl data =
     (case renderBody loadImage brainPositions baseImageUrl data of
        Inl err \<Rightarrow> Inl (JsError (''Error during brain image processing: '' @ message err))
      | Inr url \<Rightarrow> Inr url)"

subsection \<open>The handler\<close>

definition BASE_IMAGE_BRAIN_URL :: string where
  "BASE_IMAGE_BRAIN_URL = ''https://i.postimg.cc/LXMYjwtX/Inserir-um-t-tulo-6.png''"

definition BASE_IMAGE_ANIMALS_URL :: string where
  "BASE_IMAGE_ANIMALS_URL = ''https://i.postimg.cc/6QDYdjPb/Design-sem-nome-17.png''"

text \<open>
  The request: its method (\<open>req.method\<close>, here \<open>req_method\<close>) and its parsed body.
  A field of the body is \<open>None\<close> when it is absent or falsy (what \<open>!animalData\<close>
  tests). The body itself may be \<open>undefined\<close> or \<open>null\<close>; destructuring it then throws
  inside the \<open>try\<close>, with a message that names which of the two it is.
\<close>

record request_body =
  animalData :: "dataset option"
  brainData :: "dataset option"

datatype request_payload = UndefinedBody | NullBody | Body request_body

record request =
  req_method :: string
  body :: request_payload

datatype response_json =
  ErrorJson string
| ImagesJson data_url data_url
| FailureJson string string

record response =
  status :: nat
  json :: response_json

definition bodyUndefinedMessage :: string where
  "bodyUndefinedMessage =
     ''Cannot destructure property 'animalData' of 'req.body' as it is undefined.''"

definition bodyNullMessage :: string where
  "bodyNullMessage =
     ''Cannot destructure property 'animalData' of 'req.body' as it is null.''"

definition bodyValidationMessage :: string where
  "bodyValidationMessage =
     ''Request body must contain '' @ [CHR 0x22] @ ''animalData'' @ [CHR 0x22] @ '' and ''
       @ [CHR 0x22] @ ''brainData'' @ [CHR 0x22] @ '' objects.''"

text \<open>
  \<open>Promise.all\<close> of the two renders fulfils with both values when both fulfil, and
  rejects with the reason of the promise that rejects first. Which of two rejections
  comes first is decided by the scheduler, so it is a parameter.
\<close>

datatype settle_order = AnimalFirst | BrainFirst

definition promise_all ::
  "settle_order \<Rightarrow> js_error + 'a \<Rightarrow> js_error + 'b \<Rightarrow> js_error + ('a \<times> 'b)" where
  "promise_all order pa pb =
     (case (pa, pb) of
        (Inr a, Inr b) \<Rightarrow> Inr (a, b)
      | (Inl ea, Inr b) \<Rightarrow> Inl ea
      | (Inr a, Inl eb) \<Rightarrow> Inl eb
      | (Inl ea, Inl eb) \<Rightarrow> Inl (case order of AnimalFirst \<Rightarrow> ea | BrainFirst \<Rightarrow> eb))"

definition handler ::
  "(string \<Rightarrow> js_error + image) \<Rightarrow> settle_order \<Rightarrow> request \<Rightarrow> response" where
  "handler loadImage order req =
     (if req_method req \<noteq> ''POST'' then \<lparr>status = 405, json = ErrorJson ''Method Not Allowed''\<rparr>
      else
        let failure = (\<lambda>error. \<lparr>status = 500,
                         json = FailureJson ''Failed to generate images.'' (message error)\<rparr>)
        in case body req of
             UndefinedBody \<Rightarrow> failure (JsError bodyUndefinedMessage)
           | NullBody \<Rightarrow> failure (JsError bodyNullMessage)
           | Body b \<Rightarrow>
               (case (animalData b, brainData b) of
                  (Some animal, Some brain) \<Rightarrow>
                    (case promise_all order
                            (generateAnimalImage loadImage BASE_IMAGE_ANIMALS_URL animal)
                            (generateBrainImage loadImage BASE_IMAGE_BRAIN_URL brain) of
                       Inr (animalImage, brainImage) \<Rightarrow>
                         \<lparr>status = 200, json = ImagesJson animalImage brainImage\<rparr>
                     | Inl error \<Rightarrow> failure error)
                | _ \<Rightarrow>
                    \<lparr>status = 400, json = ErrorJson bodyValidationMessage\<rparr>))"

subsection \<open>Notions used to state the properties\<close>

text \<open>
  The largest value of a dataset and the first name that carries a given value, in the
  order of the entries.
\<close>

definition maxValue :: "dataset \<Rightarrow> int" where
  "maxValue d = Max (snd ` set d)"

definition firstWithValue :: "int \<Rightarrow> dataset \<Rightarrow> string option" where
  "firstWithValue v d = map_option fst (find (\<lambda>e. snd e = v) d)"

text \<open>
  The names of the two interfaces in the order of their declaration (lines 22 to 34 of
  the source), and the first name, in a given order of names, to which a dataset maps a
  given value. The order of a dataset's own entries need not be the declared one: it is
  the order in which the keys arrive in the request body.
\<close>

definition animalNames :: "string list" where
  "animalNames = [''lobo'', ''aguia'', ''tubarao'', ''gato'']"

definition brainNames :: "string list" where
  "brainNames = [''pensante'', ''atuante'', ''razao'', ''emocao'']"

definition firstDeclaredWithValue :: "string list \<Rightarrow> int \<Rightarrow> dataset \<Rightarrow> string option" where
  "firstDeclaredWithValue names v d = find (\<lambda>n. map_of d n = Some v) names"

text \<open>The two label styles, read off a \<open>fillText\<close> call.\<close>

definition emphasized :: "draw_call \<Rightarrow> bool" where
  "emphasized c =
     (case c of
        FillText text x y s \<Rightarrow> font s = ''40px '' @ fontName \<and> fillStyle s = ''#FFFF00''
      | DrawImage img dx dy \<Rightarrow> False)"

definition normal :: "draw_call \<Rightarrow> bool" where
  "normal c =
     (case c of
        FillText text x y s \<Rightarrow> font s = ''36px '' @ fontName \<and> fillStyle s = ''#FFFFFF''
      | DrawImage img dx dy \<Rightarrow> False)"

text \<open>The labels of an encoded image: the \<open>fillText\<close> calls made on its canvas, in order.\<close>

definition isLabel :: "draw_call \<Rightarrow> bool" where
  "isLabel c = (case c of FillText text x y s \<Rightarrow> True | DrawImage img dx dy \<Rightarrow> False)"

definition labels :: "data_url \<Rightarrow> draw_call list" where
  "labels u = filter isLabel (calls (encoded u))"

text \<open>
  The settings in force when a label is painted, and the call that the drawing loop makes
  for one entry whose name has a position (or an inherited member) in the table.
\<close>

definition labelSettings :: "bool \<Rightarrow> context_state" where
  "labelSettings isHighest =
     \<lparr>font = numberToString (if isHighest then highestFontSize else normalFontSize)
               @ ''px '' @ fontName,
      fillStyle = (if isHighest then highestColor else normalColor),
      textAlign = ''center'', textBaseline = ''middle'',
      shadowColor = ''rgba(0, 0, 0, 0.8)'', shadowBlur = 10,
      shadowOffsetX = 0, shadowOffsetY = 0\<rparr>"

definition coordinates :: "(int \<times> int) property \<Rightarrow> int option \<times> int option" where
  "coordinates p = (case p of Own (x, y) \<Rightarrow> (Some x, Some y) | _ \<Rightarrow> (None, None))"

definition labelCall ::
  "(string \<times> int \<times> int) list \<Rightarrow> string option \<Rightarrow> string \<times> int \<Rightarrow> draw_call" where
  "labelCall positions highestName e =
     FillText (numberToString (snd e) @ ''%'')
       (fst (coordinates (lookup_literal positions (fst e))))
       (snd (coordinates (lookup_literal positions (fst e))))
       (labelSettings (Some (fst e) = highestName))"

text \<open>Sample datasets (scenarios A and B of the specification) and sample worlds: a base
  image that loads, and one whose brain image does not decode.\<close>

definition scenarioA :: dataset where
  "scenarioA = [(''lobo'', 40), (''aguia'', 55), (''tubarao'', 55), (''gato'', 10)]"

definition scenarioB :: dataset where
  "scenarioB = [(''pensante'', 20), (''atuante'', 30), (''razao'', 25), (''emocao'', 25)]"

definition withoutGato :: dataset where
  "withoutGato = [(''lobo'', 40), (''aguia'', 55), (''tubarao'', 5)]"

definition withToString :: dataset where
  "withToString =
     [(''lobo'', 40), (''aguia'', 55), (''tubarao'', 3), (''gato'', 2), (''toString'', 7)]"

definition withUnknown :: dataset where
  "withUnknown =
     [(''lobo'', 40), (''aguia'', 55), (''tubarao'', 3), (''gato'', 2), (''urso'', 7)]"

definition tiedBelowSentinel :: dataset where
  "tiedBelowSentinel = [(''lobo'', - 3), (''aguia'', - 3), (''tubarao'', - 5), (''gato'', - 5)]"

definition reorderedTie :: dataset where
  "reorderedTie = [(''gato'', 55), (''tubarao'', 55), (''lobo'', 1), (''aguia'', 2)]"

definition reorderedEqual :: dataset where
  "reorderedEqual = [(''gato'', 25), (''lobo'', 25), (''aguia'', 25), (''tubarao'', 25)]"

definition allSentinel :: dataset where
  "allSentinel = [(''lobo'', - 1), (''aguia'', - 1), (''tubarao'', - 1), (''gato'', - 1)]"

definition allEqual :: dataset where
  "allEqual = [(''lobo'', 25), (''aguia'', 25), (''tubarao'', 25), (''gato'', 25)]"


definition sampleImage :: image where
  "sampleImage = \<lparr>width = 1000, height = 1200, pixels = [7, 7, 7]\<rparr>"

definition loadsAlways :: "string \<Rightarrow> js_error + image" where
  "loadsAlways url = Inr sampleImage"

definition brainDecodeFails :: "string \<Rightarrow> js_error + image" where
  "brainDecodeFails url =
     (if url = BASE_IMAGE_BRAIN_URL then Inl (JsError ''Unsupported image type'')
      else Inr sampleImage)"

definition sampleRequest :: request where
  "sampleRequest =
     \<lparr>req_method = ''POST'',
      body = Body \<lparr>animalData = Some scenarioA, brainData = Some scenarioB\<rparr>\<rparr>"

section \<open>Auxiliary facts\<close>

subsection \<open>The selection loop\<close>

lemma findHighestLoop_char:
  "findHighestLoop es (h, m) =
     (if \<exists>e\<in>set es. m < snd e then (firstWithValue (maxValue es) es, maxValue es) else (h, m))"
proof (induction es arbitrary: h m)
  case Nil
  show ?case by simp
next
  case (Cons a es)
  obtain n p where a: "a = (n, p)" by (cases a)
  show ?case
  proof (cases "\<exists>e\<in>set es. max m p < snd e")
    case True
    then obtain e where e: "e \<in> set es" "max m p < snd e" by blast
    have ne: "snd ` set es \<noteq> {}" using e by auto
    have "snd e \<le> Max (snd ` set es)" using e by simp
    then have big: "max m p < Max (snd ` set es)" using e by linarith
    have "p \<le> Max (snd ` set es)" using big by linarith
    then have mv: "maxValue (a # es) = maxValue es"
      using ne by (simp add: maxValue_def a max_absorb2)
    have "p \<noteq> maxValue es" using big by (simp add: maxValue_def)
    then have fw: "firstWithValue (maxValue es) (a # es) = firstWithValue (maxValue es) es"
      by (simp add: firstWithValue_def a)
    show ?thesis using True e Cons.IH[of "Some n" p] Cons.IH[of h m] mv fw
      by (auto simp: a)
  next
    case False
    then have le: "\<forall>e\<in>set es. snd e \<le> max m p" by auto
    show ?thesis
    proof (cases "m < p")
      case True
      have "Max (insert p (snd ` set es)) = p"
        using le True by (intro Max_eqI) auto
      then have mv: "maxValue (a # es) = p" by (simp add: maxValue_def a)
      have fw: "firstWithValue p (a # es) = Some n" by (simp add: firstWithValue_def a)
      show ?thesis using True le Cons.IH[of "Some n" p] mv fw by (auto simp: a)
    next
      case False
      then show ?thesis using le Cons.IH[of h m] by (auto simp: a)
    qed
  qed
qed


lemma findHighest_char:
  "findHighest d =
     (if \<exists>e\<in>set d. - 1 < snd e then (firstWithValue (maxValue d) d, maxValue d) else (None, - 1))"
  unfolding findHighest_def by (rule findHighestLoop_char)

lemma numberToString_36: "numberToString 36 = ''36''"
  by (simp add: numberToString_def MAX_SAFE_INTEGER_def digit_def)

lemma numberToString_40: "numberToString 40 = ''40''"
  by (simp add: numberToString_def MAX_SAFE_INTEGER_def digit_def)

lemma emphasized_labelCall [simp]:
  "emphasized (labelCall positions h e) \<longleftrightarrow> Some (fst e) = h"
  by (simp add: emphasized_def labelCall_def labelSettings_def highestFontSize_def
      normalFontSize_def highestColor_def normalColor_def numberToString_36 numberToString_40)

lemma normal_labelCall [simp]:
  "normal (labelCall positions h e) \<longleftrightarrow> Some (fst e) \<noteq> h"
  by (simp add: normal_def labelCall_def labelSettings_def highestFontSize_def
      normalFontSize_def highestColor_def normalColor_def numberToString_36 numberToString_40)

lemma drawTextWithShadow_calls:
  "calls (drawTextWithShadow ctx text x y f c a b) =
     calls ctx @ [FillText text x y
       \<lparr>font = f, fillStyle = c, textAlign = a, textBaseline = b,
        shadowColor = ''rgba(0, 0, 0, 0.8)'', shadowBlur = 10,
        shadowOffsetX = 0, shadowOffsetY = 0\<rparr>]"
  by (cases "state ctx") (simp add: drawTextWithShadow_def fillText_def Let_def)

lemma drawTextWithShadow_state:
  "state (drawTextWithShadow ctx text x y f c a b) =
     \<lparr>font = f, fillStyle = c, textAlign = a, textBaseline = b,
      shadowColor = ''transparent'', shadowBlur = 0, shadowOffsetX = 0, shadowOffsetY = 0\<rparr>"
  by (cases "state ctx") (simp add: drawTextWithShadow_def fillText_def Let_def)

lemma drawTextWithShadow_size:
  "canvas_width (drawTextWithShadow ctx text x y f c a b) = canvas_width ctx"
  "canvas_height (drawTextWithShadow ctx text x y f c a b) = canvas_height ctx"
  by (simp_all add: drawTextWithShadow_def fillText_def Let_def)

lemma drawLabels_Inr:
  "drawLabels positions h es ctx = Inr ctx' \<Longrightarrow>
     calls ctx' = calls ctx @ map (labelCall positions h) es \<and>
     canvas_width ctx' = canvas_width ctx \<and> canvas_height ctx' = canvas_height ctx"
proof (induction es arbitrary: ctx)
  case Nil
  then show ?case by simp
next
  case (Cons e es)
  obtain name percentage where e: "e = (name, percentage)" by (cases e)
  show ?case
  proof (cases "lookup_literal positions name")
    case (Own xy)
    obtain x y where xy: "xy = (x, y)" by (cases xy)
    from Cons.prems Cons.IH show ?thesis
      by (simp add: e Own xy destructure_xy_def Let_def drawTextWithShadow_calls
          drawTextWithShadow_size labelCall_def labelSettings_def coordinates_def)
  next
    case Inherited
    from Cons.prems Cons.IH show ?thesis
      by (simp add: e Inherited destructure_xy_def Let_def drawTextWithShadow_calls
          drawTextWithShadow_size labelCall_def labelSettings_def coordinates_def)
  next
    case Undefined
    from Cons.prems show ?thesis
      by (simp add: e Undefined destructure_xy_def Let_def)
  qed
qed

lemma drawLabels_ok:
  "\<forall>e\<in>set es. lookup_literal positions (fst e) \<noteq> Undefined \<Longrightarrow>
     \<exists>ctx'. drawLabels positions h es ctx = Inr ctx'"
proof (induction es arbitrary: ctx)
  case Nil
  then show ?case by simp
next
  case (Cons e es)
  obtain name percentage where e: "e = (name, percentage)" by (cases e)
  from Cons.prems have "lookup_literal positions name \<noteq> Undefined" by (simp add: e)
  then obtain x y where "destructure_xy (lookup_literal positions name) = Inr (x, y)"
    by (cases "lookup_literal positions name") (auto simp: destructure_xy_def)
  with Cons show ?case by (simp add: e Let_def)
qed

lemma drawLabels_fail:
  "\<exists>e\<in>set es. lookup_literal positions (fst e) = Undefined \<Longrightarrow>
     drawLabels positions h es ctx = Inl (JsError destructureMessage)"
proof (induction es arbitrary: ctx)
  case Nil
  then show ?case by simp
next
  case (Cons e es)
  obtain name percentage where e: "e = (name, percentage)" by (cases e)
  show ?case
  proof (cases "lookup_literal positions name")
    case Undefined
    then show ?thesis by (simp add: e destructure_xy_def Let_def)
  next
    case (Own xy)
    obtain x y where xy: "xy = (x, y)" by (cases xy)
    from Cons Own show ?thesis by (simp add: e xy destructure_xy_def Let_def)
  next
    case Inherited
    from Cons Inherited show ?thesis by (simp add: e destructure_xy_def Let_def)
  qed
qed

lemma renderBody_Inr:
  assumes "renderBody loadImage positions url d = Inr u"
  shows "\<exists>img. loadImage url = Inr img \<and> mime u = ''image/png'' \<and>
           canvas_width (encoded u) = width img \<and> canvas_height (encoded u) = height img \<and>
           calls (encoded u) =
             DrawImage img 0 0 # map (labelCall positions (fst (findHighest d))) d"
proof (cases "loadImage url")
  case (Inl err)
  with assms show ?thesis by (simp add: renderBody_def)
next
  case (Inr img)
  let ?ctx = "drawImage (createCanvas (width img) (height img)) img 0 0"
  from assms Inr obtain ctx' where
    dl: "drawLabels positions (fst (findHighest d)) d ?ctx = Inr ctx'" and u: "u = toDataURL ctx' ''image/png''"
    by (auto simp: renderBody_def Let_def split: prod.splits sum.splits)
  from drawLabels_Inr[OF dl] show ?thesis
    by (simp add: Inr u toDataURL_def drawImage_def createCanvas_def)
qed

lemma renderBody_ok:
  assumes "loadImage url = Inr img"
    and "\<forall>e\<in>set d. lookup_literal positions (fst e) \<noteq> Undefined"
  shows "\<exists>u. renderBody loadImage positions url d = Inr u"
proof -
  obtain ctx' where "drawLabels positions (fst (findHighest d)) d
      (drawImage (createCanvas (width img) (height img)) img 0 0) = Inr ctx'"
    using drawLabels_ok[OF assms(2)] by blast
  then show ?thesis using assms(1)
    by (cases "findHighest d") (simp add: renderBody_def Let_def)
qed

lemma renderBody_fail:
  assumes "\<exists>e\<in>set d. lookup_literal positions (fst e) = Undefined"
  shows "renderBody loadImage positions url d =
           Inl (case loadImage url of Inl err \<Rightarrow> err | Inr img \<Rightarrow> JsError destructureMessage)"
  using drawLabels_fail[OF assms]
  by (simp add: renderBody_def Let_def split: prod.splits sum.splits)

lemma firstWithValue_maxValue:
  assumes "d \<noteq> []"
  shows "\<exists>i<length d. firstWithValue (maxValue d) d = Some (fst (d ! i)) \<and>
           snd (d ! i) = maxValue d \<and> (\<forall>j<i. snd (d ! j) < maxValue d)"
proof -
  have fin: "finite (snd ` set d)" and ne: "snd ` set d \<noteq> {}" using assms by auto
  have "maxValue d \<in> snd ` set d" unfolding maxValue_def using fin ne by (rule Max_in)
  then obtain e where e: "e \<in> set d" "snd e = maxValue d" by auto
  then have "find (\<lambda>e. snd e = maxValue d) d \<noteq> None"
    unfolding find_None_iff by blast
  then obtain e' where f: "find (\<lambda>e. snd e = maxValue d) d = Some e'" by blast
  then obtain i where i: "i < length d" "snd (d ! i) = maxValue d" "e' = d ! i"
    "\<forall>j<i. snd (d ! j) \<noteq> maxValue d"
    by (auto simp: find_Some_iff)
  have "snd (d ! j) < maxValue d" if "j < i" for j
  proof -
    have "j < length d" using that i(1) by simp
    then have "snd (d ! j) \<in> snd ` set d" by simp
    then have "snd (d ! j) \<le> maxValue d" unfolding maxValue_def using fin by simp
    moreover have "snd (d ! j) \<noteq> maxValue d" using i(4) that by simp
    ultimately show ?thesis by simp
  qed
  with i f show ?thesis by (auto simp: firstWithValue_def)
qed

lemma maxValue_ge: "e \<in> set d \<Longrightarrow> snd e \<le> maxValue d"
  by (simp add: maxValue_def)

lemma maxValue_gt_iff: "d \<noteq> [] \<Longrightarrow> k < maxValue d \<longleftrightarrow> (\<exists>e\<in>set d. k < snd e)"
  by (simp add: maxValue_def Max_gr_iff)

subsection \<open>The renders\<close>

lemma generateAnimalImage_Inr_iff:
  "generateAnimalImage loadImage url d = Inr u \<longleftrightarrow> renderBody loadImage animalPositions url d = Inr u"
  by (simp add: generateAnimalImage_def split: sum.splits)

lemma generateBrainImage_Inr_iff:
  "generateBrainImage loadImage url d = Inr u \<longleftrightarrow> renderBody loadImage brainPositions url d = Inr u"
  by (simp add: generateBrainImage_def split: sum.splits)

lemma animalPositions_Undefined_iff:
  "lookup_literal animalPositions n = Undefined \<longleftrightarrow>
     n \<notin> {''lobo'', ''aguia'', ''tubarao'', ''gato''} \<and> n \<notin> set objectPrototypeNames"
  by (simp add: lookup_literal_def animalPositions_def)

lemma brainPositions_Undefined_iff:
  "lookup_literal brainPositions n = Undefined \<longleftrightarrow>
     n \<notin> {''pensante'', ''atuante'', ''razao'', ''emocao''} \<and> n \<notin> set objectPrototypeNames"
  by (simp add: lookup_literal_def brainPositions_def)

lemma isLabel_labelCall [simp]: "isLabel (labelCall positions h e)"
  by (simp add: isLabel_def labelCall_def)

lemma labels_renderBody:
  assumes "renderBody loadImage positions url d = Inr u"
  shows "labels u = map (labelCall positions (fst (findHighest d))) d"
proof -
  from renderBody_Inr[OF assms] obtain img where
    "calls (encoded u) = DrawImage img 0 0 # map (labelCall positions (fst (findHighest d))) d"
    by blast
  moreover have "filter isLabel (map (labelCall positions h) es) = map (labelCall positions h) es"
    for h es by (induction es) simp_all
  ultimately show ?thesis by (simp add: labels_def) (simp add: isLabel_def)
qed

lemma one_entry_per_name:
  "distinct (map fst d) \<Longrightarrow> n \<in> fst ` set d \<Longrightarrow> length (filter (\<lambda>e. fst e = n) d) = 1"
proof (induction d)
  case Nil
  then show ?case by simp
next
  case (Cons e d)
  show ?case
  proof (cases "fst e = n")
    case True
    with Cons.prems have "n \<notin> fst ` set d" by simp
    then have "\<forall>e'\<in>set d. fst e' \<noteq> n" by force
    then have "filter (\<lambda>e. fst e = n) d = []" by (simp add: filter_empty_conv)
    with True show ?thesis by simp
  next
    case False
    with Cons show ?thesis by auto
  qed
qed

lemma length_filter_complement:
  "length (filter (\<lambda>e. \<not> P e) d) = length d - length (filter P d)"
  using sum_length_filter_compl[of P d] by simp

lemma generate_ok:
  assumes "loadImage url = Inr img"
    and "\<forall>e\<in>set d. lookup_literal positions (fst e) \<noteq> Undefined"
  shows "\<exists>u. renderBody loadImage positions url d = Inr u \<and>
           calls (encoded u) = DrawImage img 0 0 # labels u \<and> length (labels u) = length d"
proof -
  from renderBody_ok[where loadImage = loadImage and url = url, OF assms] obtain u where u: "renderBody loadImage positions url d = Inr u"
    by blast
  from renderBody_Inr[OF u] assms(1) labels_renderBody[OF u] show ?thesis
    using u by auto
qed

lemma urls_differ: "BASE_IMAGE_ANIMALS_URL \<noteq> BASE_IMAGE_BRAIN_URL"
  by (simp add: BASE_IMAGE_ANIMALS_URL_def BASE_IMAGE_BRAIN_URL_def)

lemma animal_renders:
  assumes "loadImage url = Inr img"
    and "fst ` set d \<subseteq> {''lobo'', ''aguia'', ''tubarao'', ''gato''}"
  shows "\<exists>u. generateAnimalImage loadImage url d = Inr u"
proof -
  from assms(2) have "\<forall>e\<in>set d. lookup_literal animalPositions (fst e) \<noteq> Undefined"
    unfolding animalPositions_Undefined_iff by blast
  from generate_ok[where loadImage = loadImage and url = url, OF assms(1) this]
  show ?thesis by (auto simp: generateAnimalImage_Inr_iff)
qed

lemma brain_renders:
  assumes "loadImage url = Inr img"
    and "fst ` set d \<subseteq> {''pensante'', ''atuante'', ''razao'', ''emocao''}"
  shows "\<exists>u. generateBrainImage loadImage url d = Inr u"
proof -
  from assms(2) have "\<forall>e\<in>set d. lookup_literal brainPositions (fst e) \<noteq> Undefined"
    unfolding brainPositions_Undefined_iff by blast
  from generate_ok[where loadImage = loadImage and url = url, OF assms(1) this]
  show ?thesis by (auto simp: generateBrainImage_Inr_iff)
qed

lemma findHighest_None:
  "\<forall>e\<in>set d. snd e \<le> - 1 \<Longrightarrow> findHighest d = (None, - 1)"
  by (simp add: findHighest_char) (meson not_le)

lemma labels_without_selection:
  assumes "\<forall>e\<in>set d. snd e \<le> - 1" and "renderBody loadImage positions url d = Inr u"
  shows "length (labels u) = length d \<and> filter emphasized (labels u) = [] \<and>
           filter normal (labels u) = labels u"
proof -
  from labels_renderBody[OF assms(2)] findHighest_None[OF assms(1)]
  have "labels u = map (labelCall positions None) d" by simp
  then show ?thesis by (simp add: filter_empty_conv)
qed

lemma four_names:
  assumes "distinct (map fst d)" and "fst ` set d = {a, b, c, e}"
    and "distinct [a, b, c, e]"
  shows "length d = 4"
proof -
  have "card (set (map fst d)) = length (map fst d)" using assms(1) by (rule distinct_card)
  then have "length d = card (set (map fst d))" by simp
  also have "\<dots> = card {a, b, c, e}" using assms(2) by simp
  also have "\<dots> = 4" using assms(3) by simp
  finally show ?thesis .
qed

lemma one_emphasized_body:
  assumes "wellformed d" and "\<exists>e\<in>set d. - 1 < snd e"
    and "renderBody loadImage positions url d = Inr u"
  shows "length (labels u) = length d \<and> length (filter emphasized (labels u)) = 1 \<and>
         length (filter normal (labels u)) = length d - 1 \<and>
         ((\<forall>e\<in>set d. snd e = snd (hd d)) \<longrightarrow> emphasized (hd (labels u)))"
proof -
  from assms(2) have ne: "d \<noteq> []" by auto
  from firstWithValue_maxValue[OF ne] obtain i where
    i: "i < length d" "firstWithValue (maxValue d) d = Some (fst (d ! i))"
      "snd (d ! i) = maxValue d" "\<forall>j<i. snd (d ! j) < maxValue d"
    by blast
  let ?n = "fst (d ! i)"
  have h: "fst (findHighest d) = Some ?n" using assms(2) i(2) by (simp add: findHighest_char)
  have lab: "labels u = map (labelCall positions (Some ?n)) d"
    using labels_renderBody[OF assms(3)] h by simp
  have mem: "?n \<in> fst ` set d" using i(1) by simp
  have dist: "distinct (map fst d)" using assms(1) by (simp add: wellformed_def)
  have eq1: "(emphasized \<circ> labelCall positions (Some ?n)) = (\<lambda>e. fst e = ?n)"
    by (auto simp: fun_eq_iff)
  have eq2: "(normal \<circ> labelCall positions (Some ?n)) = (\<lambda>e. \<not> fst e = ?n)"
    by (auto simp: fun_eq_iff)
  have one: "length (filter (\<lambda>e. fst e = ?n) d) = 1" using dist mem by (rule one_entry_per_name)
  have e: "length (filter emphasized (labels u)) = 1"
    by (simp add: lab filter_map eq1 one)
  have n: "length (filter normal (labels u)) = length d - 1"
    by (simp only: lab filter_map eq2 length_map length_filter_complement one)
  have first: "emphasized (hd (labels u))" if all: "\<forall>e\<in>set d. snd e = snd (hd d)"
  proof -
    have "i = 0"
    proof (rule ccontr)
      assume "i \<noteq> 0"
      then have "snd (d ! 0) < maxValue d" using i(4) by simp
      moreover have "d ! 0 \<in> set d" "d ! i \<in> set d" using ne i(1) by simp_all
      ultimately show False using all i(3) by (metis less_irrefl)
    qed
    then have "?n = fst (hd d)" using ne by (simp add: hd_conv_nth)
    moreover have "hd (labels u) = labelCall positions (Some ?n) (hd d)"
      using ne by (simp add: lab hd_map)
    ultimately show ?thesis by simp
  qed
  from e n first show ?thesis by (simp add: lab)
qed

lemma handler_post:
  assumes "req_method req = ''POST''" and "body req = Body b"
    and "animalData b = Some animal" and "brainData b = Some brain"
  shows "handler loadImage order req =
           (case promise_all order
                   (generateAnimalImage loadImage BASE_IMAGE_ANIMALS_URL animal)
                   (generateBrainImage loadImage BASE_IMAGE_BRAIN_URL brain) of
              Inr (animalImage, brainImage) \<Rightarrow>
                \<lparr>status = 200, json = ImagesJson animalImage brainImage\<rparr>
            | Inl error \<Rightarrow>
                \<lparr>status = 500, json = FailureJson ''Failed to generate images.'' (message error)\<rparr>)"
  using assms by (simp add: handler_def Let_def)

lemma firstDeclared_own_order:
  "distinct (map fst d) \<Longrightarrow>
     firstDeclaredWithValue (map fst d) v d = firstWithValue v d"
proof (induction d)
  case Nil
  show ?case by (simp add: firstDeclaredWithValue_def firstWithValue_def)
next
  case (Cons e d)
  obtain n p where e: "e = (n, p)" by (cases e)
  from Cons.prems have notin: "n \<notin> set (map fst d)" and dist: "distinct (map fst d)"
    by (simp_all add: e)
  have "find (\<lambda>m. map_of ((n, p) # d) m = Some v) (map fst d) =
        find (\<lambda>m. map_of d m = Some v) (map fst d)"
    using notin by (intro find_cong) auto
  with Cons.IH[OF dist] show ?case
    by (simp add: firstDeclaredWithValue_def firstWithValue_def e)
qed

lemma selected_in_declared_order:
  assumes "map fst d = names" and "distinct names" and "names \<noteq> []" and "- 1 < maxValue d"
  shows "fst (findHighest d) = firstDeclaredWithValue names (maxValue d) d"
proof -
  from assms(1,3) have ne: "d \<noteq> []" by auto
  then have "\<exists>e\<in>set d. - 1 < snd e" using assms(4) by (simp add: maxValue_gt_iff)
  then have "fst (findHighest d) = firstWithValue (maxValue d) d" by (simp add: findHighest_char)
  also have "\<dots> = firstDeclaredWithValue (map fst d) (maxValue d) d"
  proof -
    have "distinct (map fst d)" using assms(1,2) by simp
    then show ?thesis by (rule firstDeclared_own_order [symmetric])
  qed
  finally show ?thesis using assms(1) by simp
qed

lemma first_label_of_equal_values:
  assumes "\<exists>e\<in>set d. - 1 < snd e" and "\<forall>e\<in>set d. snd e = snd (hd d)"
    and "renderBody loadImage positions url d = Inr u"
  shows "hd (labels u) = labelCall positions (Some (fst (hd d))) (hd d)"
proof -
  from assms(1) have ne: "d \<noteq> []" by auto
  from firstWithValue_maxValue[OF ne] obtain i where
    i: "i < length d" "firstWithValue (maxValue d) d = Some (fst (d ! i))"
      "snd (d ! i) = maxValue d" "\<forall>j<i. snd (d ! j) < maxValue d"
    by blast
  have "i = 0"
  proof (rule ccontr)
    assume "i \<noteq> 0"
    then have "snd (d ! 0) < maxValue d" using i(4) by simp
    moreover have "d ! 0 \<in> set d" "d ! i \<in> set d" using ne i(1) by simp_all
    ultimately show False using assms(2) i(3) by (metis less_irrefl)
  qed
  then have "fst (findHighest d) = Some (fst (hd d))"
    using assms(1) i(2) ne by (simp add: findHighest_char hd_conv_nth)
  with labels_renderBody[OF assms(3)] ne show ?thesis by (simp add: hd_map)
qed

lemma numberToString_25: "numberToString 25 = ''25''"
  by (simp add: numberToString_def MAX_SAFE_INTEGER_def digit_def)

section \<open>Properties of the annotation engine\<close>

subsection \<open>The label selector\<close>

text \<open>
  C1. The claim: for every dataset with at least one entry the selection loop returns a
  name of the dataset whose value is at least every value of the dataset. The loop
  starts from \<open>(null, -1)\<close> and replaces only on a strictly greater value, so a dataset
  whose values are all \<open>-1\<close> or less leaves the name \<open>null\<close>.
\<close>

theorem selected_name_negative_counterexample:
  "fst (findHighest [(''lobo'', - 5), (''aguia'', - 3), (''tubarao'', - 7), (''gato'', - 2)]) = None"
  by (simp add: findHighest_def)

text \<open>
  C1, amended: for every dataset (its names distinct) with at least one value greater
  than \<open>-1\<close>, the loop returns a name of the dataset, the value mapped to that name is
  the running maximum it returns, and no value of the dataset is greater.
\<close>

theorem selected_name_is_maximal:
  assumes "wellformed d" and "\<exists>e\<in>set d. - 1 < snd e"
  shows "\<exists>n m. findHighest d = (Some n, m) \<and> map_of d n = Some m \<and> (\<forall>e\<in>set d. snd e \<le> m)"
proof -
  from assms(2) have ne: "d \<noteq> []" by auto
  from firstWithValue_maxValue[OF ne] obtain i where
    i: "i < length d" "firstWithValue (maxValue d) d = Some (fst (d ! i))" "snd (d ! i) = maxValue d"
    by blast
  have "d ! i \<in> set d" using i(1) by simp
  then have "(fst (d ! i), maxValue d) \<in> set d" using i(3) by (metis prod.collapse)
  then have "map_of d (fst (d ! i)) = Some (maxValue d)"
    using assms(1) by (simp add: wellformed_def)
  moreover have "findHighest d = (Some (fst (d ! i)), maxValue d)"
    using assms(2) i(2) by (simp add: findHighest_char)
  ultimately show ?thesis using maxValue_ge by blast
qed

theorem selected_name_is_maximal_witness:
  "wellformed scenarioB \<and> (\<exists>e\<in>set scenarioB. - 1 < snd e) \<and>
   (\<exists>n m. findHighest scenarioB = (Some n, m) \<and> map_of scenarioB n = Some m \<and>
          (\<forall>e\<in>set scenarioB. snd e \<le> m))"
  using selected_name_is_maximal [of scenarioB]
  by (simp add: wellformed_def scenarioB_def)

text \<open>
  C3. The claim: the selector replaces the running maximum only on a strictly greater
  value, so of the entries tied at the maximum value the first in declared iteration
  order is selected; scenario A selects \<open>aguia\<close>. The claim fails in two ways. A tie at
  a maximum of \<open>-1\<close> or less selects no name at all. And the loop iterates over the
  dataset's own entries, in the order in which the keys arrived: for the keys
  \<open>gato, tubarao, lobo, aguia\<close> with \<open>gato\<close> and \<open>tubarao\<close> tied at 55 it selects
  \<open>gato\<close>, while the first tied name in the declared order \<open>lobo, aguia, tubarao, gato\<close>
  is \<open>tubarao\<close>.
\<close>

theorem tied_maxima_counterexample:
  "maxValue tiedBelowSentinel = - 3 \<and>
   firstDeclaredWithValue animalNames (maxValue tiedBelowSentinel) tiedBelowSentinel = Some ''lobo'' \<and>
   fst (findHighest tiedBelowSentinel) = None \<and>
   maxValue reorderedTie = 55 \<and>
   firstDeclaredWithValue animalNames (maxValue reorderedTie) reorderedTie = Some ''tubarao'' \<and>
   fst (findHighest reorderedTie) = Some ''gato''"
  by (simp add: findHighest_def maxValue_def tiedBelowSentinel_def reorderedTie_def
      firstDeclaredWithValue_def animalNames_def)

text \<open>
  C3, amended: an entry whose value is not strictly greater than the running maximum
  leaves the selection unchanged; for every non-empty dataset whose maximum value is
  greater than \<open>-1\<close> the selected name is that of an entry carrying the maximum value
  before which every entry of the dataset has a strictly smaller value (the first of the
  tied entries in the order of the dataset's own entries); when the names of the dataset
  arrive in the declared order of its shape, that name is the first name in declared
  order that carries the maximum value; and scenario A selects \<open>aguia\<close>.
\<close>

theorem first_of_tied_maxima_is_selected:
  "(percentage \<le> maxPercentage \<longrightarrow>
      findHighestLoop ((name, percentage) # entries) (highestName, maxPercentage) =
        findHighestLoop entries (highestName, maxPercentage))
   \<and> (d \<noteq> [] \<longrightarrow> - 1 < maxValue d \<longrightarrow>
        (\<exists>i<length d. fst (findHighest d) = Some (fst (d ! i)) \<and> snd (d ! i) = maxValue d \<and>
           (\<forall>j<i. snd (d ! j) < maxValue d)))
   \<and> (map fst d = animalNames \<longrightarrow> - 1 < maxValue d \<longrightarrow>
        fst (findHighest d) = firstDeclaredWithValue animalNames (maxValue d) d)
   \<and> (map fst d = brainNames \<longrightarrow> - 1 < maxValue d \<longrightarrow>
        fst (findHighest d) = firstDeclaredWithValue brainNames (maxValue d) d)
   \<and> fst (findHighest scenarioA) = Some ''aguia''"
proof (intro conjI impI)
  assume "percentage \<le> maxPercentage"
  then show "findHighestLoop ((name, percentage) # entries) (highestName, maxPercentage) =
        findHighestLoop entries (highestName, maxPercentage)" by simp
next
  assume ne: "d \<noteq> []" and gt: "- 1 < maxValue d"
  then have "\<exists>e\<in>set d. - 1 < snd e" by (simp add: maxValue_gt_iff)
  then have "fst (findHighest d) = firstWithValue (maxValue d) d" by (simp add: findHighest_char)
  with firstWithValue_maxValue[OF ne]
  show "\<exists>i<length d. fst (findHighest d) = Some (fst (d ! i)) \<and> snd (d ! i) = maxValue d \<and>
           (\<forall>j<i. snd (d ! j) < maxValue d)" by simp
next
  assume "map fst d = animalNames" and "- 1 < maxValue d"
  then show "fst (findHighest d) = firstDeclaredWithValue animalNames (maxValue d) d"
    by (intro selected_in_declared_order) (simp_all add: animalNames_def)
next
  assume "map fst d = brainNames" and "- 1 < maxValue d"
  then show "fst (findHighest d) = firstDeclaredWithValue brainNames (maxValue d) d"
    by (intro selected_in_declared_order) (simp_all add: brainNames_def)
next
  show "fst (findHighest scenarioA) = Some ''aguia''" by (simp add: findHighest_def scenarioA_def)
qed

theorem first_of_tied_maxima_is_selected_witness:
  "(55::int) \<le> 55 \<and>
   findHighestLoop ((''tubarao'', 55) # [(''gato'', 10)]) (Some ''aguia'', 55) =
     findHighestLoop [(''gato'', 10)] (Some ''aguia'', 55) \<and>
   scenarioA \<noteq> [] \<and> - 1 < maxValue scenarioA \<and>
   (\<exists>i<length scenarioA. fst (findHighest scenarioA) = Some (fst (scenarioA ! i)) \<and>
      snd (scenarioA ! i) = maxValue scenarioA \<and>
      (\<forall>j<i. snd (scenarioA ! j) < maxValue scenarioA)) \<and>
   map fst scenarioA = animalNames \<and>
   fst (findHighest scenarioA) = firstDeclaredWithValue animalNames (maxValue scenarioA) scenarioA \<and>
   firstDeclaredWithValue animalNames (maxValue scenarioA) scenarioA = Some ''aguia''"
proof -
  have ne: "scenarioA \<noteq> []" by (simp add: scenarioA_def)
  have gt: "- 1 < maxValue scenarioA" by (simp add: scenarioA_def maxValue_def)
  have ord: "map fst scenarioA = animalNames" by (simp add: scenarioA_def animalNames_def)
  have fd: "firstDeclaredWithValue animalNames (maxValue scenarioA) scenarioA = Some ''aguia''"
    by (simp add: firstDeclaredWithValue_def animalNames_def scenarioA_def maxValue_def)
  show ?thesis
    using ne gt ord fd first_of_tied_maxima_is_selected
      [where percentage = 55 and maxPercentage = 55 and name = "''tubarao''"
         and entries = "[(''gato'', 10)]" and highestName = "Some ''aguia''" and d = scenarioA]
    by auto
qed

subsection \<open>The drop shadow\<close>

text \<open>
  C8. Every label is painted by \<open>drawTextWithShadow\<close>. Its call of \<open>fillText\<close> is made
  with shadow colour \<open>rgba(0, 0, 0, 0.8)\<close>, blur 10 and both offsets 0, and when it
  returns the context has the shadow colour \<open>transparent\<close>, blur 0 and both offsets 0:
  no shadow is carried into later drawing.
\<close>

theorem drawTextWithShadow_shadow:
  "calls (drawTextWithShadow ctx text x y f c a b) =
     calls ctx @ [FillText text x y
       \<lparr>font = f, fillStyle = c, textAlign = a, textBaseline = b,
        shadowColor = ''rgba(0, 0, 0, 0.8)'', shadowBlur = 10,
        shadowOffsetX = 0, shadowOffsetY = 0\<rparr>]
   \<and> shadowColor (state (drawTextWithShadow ctx text x y f c a b)) = ''transparent''
   \<and> shadowBlur (state (drawTextWithShadow ctx text x y f c a b)) = 0
   \<and> shadowOffsetX (state (drawTextWithShadow ctx text x y f c a b)) = 0
   \<and> shadowOffsetY (state (drawTextWithShadow ctx text x y f c a b)) = 0"
  by (simp add: drawTextWithShadow_calls drawTextWithShadow_state)

subsection \<open>Datasets that do not have the four names\<close>

text \<open>
  C2. The claim: an animal dataset without the key \<open>gato\<close> (and any dataset missing a
  required name) makes the render fail with an InputShapeError and produce no image.
  The render functions iterate over the entries that are present and never ask for a
  name, so the dataset without \<open>gato\<close> is rendered with three labels.
\<close>

theorem missing_gato_counterexample:
  "\<not> isl (generateAnimalImage loadsAlways BASE_IMAGE_ANIMALS_URL withoutGato) \<and>
   length (labels (projr (generateAnimalImage loadsAlways BASE_IMAGE_ANIMALS_URL withoutGato))) = 3"
proof -
  have l: "loadsAlways BASE_IMAGE_ANIMALS_URL = Inr sampleImage" by (simp add: loadsAlways_def)
  have "\<forall>e\<in>set withoutGato. lookup_literal animalPositions (fst e) \<noteq> Undefined"
    by (simp add: withoutGato_def animalPositions_Undefined_iff)
  from generate_ok[where loadImage = loadsAlways and url = BASE_IMAGE_ANIMALS_URL, OF l this] obtain u where
    "generateAnimalImage loadsAlways BASE_IMAGE_ANIMALS_URL withoutGato = Inr u"
    "length (labels u) = length withoutGato"
    by (auto simp: generateAnimalImage_Inr_iff)
  then show ?thesis by (simp add: withoutGato_def)
qed

text \<open>
  C2, amended: when the base image loads, a dataset whose names all belong to the four
  names of its shape is rendered without error whether or not all four are present:
  the result is an image whose canvas received the base image and one label per entry
  of the dataset.
\<close>

theorem render_with_missing_names_succeeds:
  assumes "loadImage url = Inr img"
  shows "(fst ` set d \<subseteq> {''lobo'', ''aguia'', ''tubarao'', ''gato''} \<longrightarrow>
           (\<exists>u. generateAnimalImage loadImage url d = Inr u \<and>
                calls (encoded u) = DrawImage img 0 0 # labels u \<and>
                length (labels u) = length d))
       \<and> (fst ` set d \<subseteq> {''pensante'', ''atuante'', ''razao'', ''emocao''} \<longrightarrow>
           (\<exists>u. generateBrainImage loadImage url d = Inr u \<and>
                calls (encoded u) = DrawImage img 0 0 # labels u \<and>
                length (labels u) = length d))"
proof (intro conjI impI)
  assume "fst ` set d \<subseteq> {''lobo'', ''aguia'', ''tubarao'', ''gato''}"
  then have "\<forall>e\<in>set d. lookup_literal animalPositions (fst e) \<noteq> Undefined"
    unfolding animalPositions_Undefined_iff by blast
  from generate_ok[where loadImage = loadImage and url = url, OF assms this]
  show "\<exists>u. generateAnimalImage loadImage url d = Inr u \<and>
          calls (encoded u) = DrawImage img 0 0 # labels u \<and> length (labels u) = length d"
    by (simp add: generateAnimalImage_Inr_iff)
next
  assume "fst ` set d \<subseteq> {''pensante'', ''atuante'', ''razao'', ''emocao''}"
  then have "\<forall>e\<in>set d. lookup_literal brainPositions (fst e) \<noteq> Undefined"
    unfolding brainPositions_Undefined_iff by blast
  from generate_ok[where loadImage = loadImage and url = url, OF assms this]
  show "\<exists>u. generateBrainImage loadImage url d = Inr u \<and>
          calls (encoded u) = DrawImage img 0 0 # labels u \<and> length (labels u) = length d"
    by (simp add: generateBrainImage_Inr_iff)
qed

theorem render_with_missing_names_succeeds_witness:
  "loadsAlways BASE_IMAGE_ANIMALS_URL = Inr sampleImage \<and>
   fst ` set withoutGato \<subseteq> {''lobo'', ''aguia'', ''tubarao'', ''gato''} \<and>
   ''gato'' \<notin> fst ` set withoutGato \<and>
   (\<exists>u. generateAnimalImage loadsAlways BASE_IMAGE_ANIMALS_URL withoutGato = Inr u \<and>
        calls (encoded u) = DrawImage sampleImage 0 0 # labels u \<and>
        length (labels u) = length withoutGato)"
proof -
  have l: "loadsAlways BASE_IMAGE_ANIMALS_URL = Inr sampleImage" by (simp add: loadsAlways_def)
  have k: "fst ` set withoutGato \<subseteq> {''lobo'', ''aguia'', ''tubarao'', ''gato''}"
    by (simp add: withoutGato_def)
  have g: "''gato'' \<notin> fst ` set withoutGato" by (simp add: withoutGato_def)
  show ?thesis
    using l k g render_with_missing_names_succeeds
        [where loadImage = loadsAlways and url = BASE_IMAGE_ANIMALS_URL and d = withoutGato, OF l] by blast
qed

text \<open>
  C10. The claim: any name outside the four names of the shape makes the render fail
  with the wrapped error. The table of positions is an object literal, so a name such as
  \<open>toString\<close> finds the member inherited from \<open>Object.prototype\<close>: destructuring it
  gives two \<open>undefined\<close> coordinates and nothing is thrown. The render returns an image
  with five \<open>fillText\<close> calls, the last one without coordinates.
\<close>

theorem inherited_name_counterexample:
  "''toString'' \<in> fst ` set withToString \<and>
   ''toString'' \<notin> {''lobo'', ''aguia'', ''tubarao'', ''gato''} \<and>
   \<not> isl (generateAnimalImage loadsAlways BASE_IMAGE_ANIMALS_URL withToString) \<and>
   length (labels (projr (generateAnimalImage loadsAlways BASE_IMAGE_ANIMALS_URL withToString))) = 5 \<and>
   last (labels (projr (generateAnimalImage loadsAlways BASE_IMAGE_ANIMALS_URL withToString))) =
     FillText ''7%'' None None (labelSettings False)"
proof -
  have l: "loadsAlways BASE_IMAGE_ANIMALS_URL = Inr sampleImage" by (simp add: loadsAlways_def)
  have "\<forall>e\<in>set withToString. lookup_literal animalPositions (fst e) \<noteq> Undefined"
    by (simp add: withToString_def animalPositions_Undefined_iff objectPrototypeNames_def)
  from generate_ok[where loadImage = loadsAlways and url = BASE_IMAGE_ANIMALS_URL, OF l this]
  obtain u where
    u: "generateAnimalImage loadsAlways BASE_IMAGE_ANIMALS_URL withToString = Inr u"
    and r: "renderBody loadsAlways animalPositions BASE_IMAGE_ANIMALS_URL withToString = Inr u"
    by (auto simp: generateAnimalImage_Inr_iff)
  have p: "lookup_literal animalPositions ''toString'' = Inherited"
    by (simp add: lookup_literal_def animalPositions_def objectPrototypeNames_def)
  have h: "fst (findHighest withToString) = Some ''aguia''"
    by (simp add: findHighest_def withToString_def)
  have n: "numberToString 7 = ''7''" by (simp add: numberToString_def MAX_SAFE_INTEGER_def digit_def)
  have "last (labels u) = labelCall animalPositions (Some ''aguia'') (''toString'', 7)"
    using labels_renderBody[OF r] h by (simp add: withToString_def)
  then have "last (labels u) = FillText ''7%'' None None (labelSettings False)"
    by (simp add: labelCall_def p coordinates_def n)
  moreover have "length (labels u) = 5"
    using labels_renderBody[OF r] by (simp add: withToString_def)
  ultimately show ?thesis using u by (simp add: withToString_def)
qed

text \<open>
  C10, amended: if the dataset has a name that is neither one of the four names of the
  shape nor the name of a member of \<open>Object.prototype\<close>, the render fails and returns
  no image; the error message is the render's prefix (animal or brain) followed by the
  message of the cause, which is the destructuring error when the base image loaded.
\<close>

theorem unknown_name_fails_render:
  assumes "n \<in> fst ` set d" and "n \<notin> set objectPrototypeNames"
  shows "(n \<notin> {''lobo'', ''aguia'', ''tubarao'', ''gato''} \<longrightarrow>
           generateAnimalImage loadImage url d =
             Inl (JsError (''Error during animal image processing: '' @
                    (case loadImage url of Inl err \<Rightarrow> message err
                     | Inr img \<Rightarrow> destructureMessage))))
       \<and> (n \<notin> {''pensante'', ''atuante'', ''razao'', ''emocao''} \<longrightarrow>
           generateBrainImage loadImage url d =
             Inl (JsError (''Error during brain image processing: '' @
                    (case loadImage url of Inl err \<Rightarrow> message err
                     | Inr img \<Rightarrow> destructureMessage))))"
proof (intro conjI impI)
  assume "n \<notin> {''lobo'', ''aguia'', ''tubarao'', ''gato''}"
  with assms have "\<exists>e\<in>set d. lookup_literal animalPositions (fst e) = Undefined"
    unfolding animalPositions_Undefined_iff by auto
  from renderBody_fail[OF this, of loadImage url]
  show "generateAnimalImage loadImage url d =
             Inl (JsError (''Error during animal image processing: '' @
                    (case loadImage url of Inl err \<Rightarrow> message err
                     | Inr img \<Rightarrow> destructureMessage)))"
    by (simp add: generateAnimalImage_def split: sum.splits)
next
  assume "n \<notin> {''pensante'', ''atuante'', ''razao'', ''emocao''}"
  with assms have "\<exists>e\<in>set d. lookup_literal brainPositions (fst e) = Undefined"
    unfolding brainPositions_Undefined_iff by auto
  from renderBody_fail[OF this, of loadImage url]
  show "generateBrainImage loadImage url d =
             Inl (JsError (''Error during brain image processing: '' @
                    (case loadImage url of Inl err \<Rightarrow> message err
                     | Inr img \<Rightarrow> destructureMessage)))"
    by (simp add: generateBrainImage_def split: sum.splits)
qed

theorem unknown_name_fails_render_witness:
  "''urso'' \<in> fst ` set withUnknown \<and> ''urso'' \<notin> set objectPrototypeNames \<and>
   ''urso'' \<notin> {''lobo'', ''aguia'', ''tubarao'', ''gato''} \<and>
   generateAnimalImage loadsAlways BASE_IMAGE_ANIMALS_URL withUnknown =
     Inl (JsError (''Error during animal image processing: '' @ destructureMessage))"
proof -
  have a: "''urso'' \<in> fst ` set withUnknown" by (simp add: withUnknown_def)
  have b: "''urso'' \<notin> set objectPrototypeNames" by (simp add: objectPrototypeNames_def)
  have c: "''urso'' \<notin> {''lobo'', ''aguia'', ''tubarao'', ''gato''}" by simp
  show ?thesis
    using a b c unknown_name_fails_render [OF a b, of loadsAlways BASE_IMAGE_ANIMALS_URL]
    by (simp add: loadsAlways_def)
qed

subsection \<open>Label styles\<close>

text \<open>
  C5. The claim: for every dataset with the four names exactly one label is drawn in the
  emphasized style (font size 40, yellow) and the other three in the normal style (font
  size 36, white), and when all four values are equal the first name in declared order
  is the emphasized one. The claim fails in two ways. Four equal values of \<open>-1\<close>
  select no name, and then no label is emphasized. And with four equal values of 25
  whose keys arrive in the order \<open>gato, lobo, aguia, tubarao\<close> the emphasized label is
  the one of \<open>gato\<close> at (750, 970); the label of \<open>lobo\<close>, the first name in declared
  order, is drawn at (250, 680) in the normal style.
\<close>

theorem emphasis_counterexample:
  "fst ` set allSentinel = {''lobo'', ''aguia'', ''tubarao'', ''gato''} \<and>
   \<not> isl (generateAnimalImage loadsAlways BASE_IMAGE_ANIMALS_URL allSentinel) \<and>
   length (filter emphasized
     (labels (projr (generateAnimalImage loadsAlways BASE_IMAGE_ANIMALS_URL allSentinel)))) = 0 \<and>
   fst ` set reorderedEqual = {''lobo'', ''aguia'', ''tubarao'', ''gato''} \<and>
   hd animalNames = ''lobo'' \<and>
   \<not> isl (generateAnimalImage loadsAlways BASE_IMAGE_ANIMALS_URL reorderedEqual) \<and>
   labels (projr (generateAnimalImage loadsAlways BASE_IMAGE_ANIMALS_URL reorderedEqual)) =
     [FillText ''25%'' (Some 750) (Some 970) (labelSettings True),
      FillText ''25%'' (Some 250) (Some 680) (labelSettings False),
      FillText ''25%'' (Some 750) (Some 680) (labelSettings False),
      FillText ''25%'' (Some 250) (Some 970) (labelSettings False)] \<and>
   emphasized (FillText ''25%'' (Some 750) (Some 970) (labelSettings True)) \<and>
   normal (FillText ''25%'' (Some 250) (Some 680) (labelSettings False))"
proof -
  have l: "loadsAlways BASE_IMAGE_ANIMALS_URL = Inr sampleImage" by (simp add: loadsAlways_def)
  have k: "fst ` set allSentinel = {''lobo'', ''aguia'', ''tubarao'', ''gato''}"
    by (auto simp: allSentinel_def)
  then have "fst ` set allSentinel \<subseteq> {''lobo'', ''aguia'', ''tubarao'', ''gato''}" by simp
  from animal_renders[where loadImage = loadsAlways, OF l this] obtain u where
    u: "generateAnimalImage loadsAlways BASE_IMAGE_ANIMALS_URL allSentinel = Inr u" by blast
  then have r: "renderBody loadsAlways animalPositions BASE_IMAGE_ANIMALS_URL allSentinel = Inr u"
    by (simp add: generateAnimalImage_Inr_iff)
  have "\<forall>e\<in>set allSentinel. snd e \<le> - 1" by (simp add: allSentinel_def)
  from labels_without_selection[OF this r] u
  have part1: "\<not> isl (generateAnimalImage loadsAlways BASE_IMAGE_ANIMALS_URL allSentinel) \<and>
     length (filter emphasized
       (labels (projr (generateAnimalImage loadsAlways BASE_IMAGE_ANIMALS_URL allSentinel)))) = 0"
    by simp
  have k': "fst ` set reorderedEqual = {''lobo'', ''aguia'', ''tubarao'', ''gato''}"
    by (auto simp: reorderedEqual_def)
  then have "fst ` set reorderedEqual \<subseteq> {''lobo'', ''aguia'', ''tubarao'', ''gato''}" by simp
  from animal_renders[where loadImage = loadsAlways, OF l this] obtain u' where
    u': "generateAnimalImage loadsAlways BASE_IMAGE_ANIMALS_URL reorderedEqual = Inr u'" by blast
  then have r': "renderBody loadsAlways animalPositions BASE_IMAGE_ANIMALS_URL reorderedEqual = Inr u'"
    by (simp add: generateAnimalImage_Inr_iff)
  have h: "fst (findHighest reorderedEqual) = Some ''gato''"
    by (simp add: findHighest_def reorderedEqual_def)
  have "labels u' =
     [FillText ''25%'' (Some 750) (Some 970) (labelSettings True),
      FillText ''25%'' (Some 250) (Some 680) (labelSettings False),
      FillText ''25%'' (Some 750) (Some 680) (labelSettings False),
      FillText ''25%'' (Some 250) (Some 970) (labelSettings False)]"
    using labels_renderBody[OF r'] h
    by (simp add: reorderedEqual_def labelCall_def lookup_literal_def animalPositions_def
        coordinates_def numberToString_25)
  with u' have part2:
    "\<not> isl (generateAnimalImage loadsAlways BASE_IMAGE_ANIMALS_URL reorderedEqual) \<and>
     labels (projr (generateAnimalImage loadsAlways BASE_IMAGE_ANIMALS_URL reorderedEqual)) =
     [FillText ''25%'' (Some 750) (Some 970) (labelSettings True),
      FillText ''25%'' (Some 250) (Some 680) (labelSettings False),
      FillText ''25%'' (Some 750) (Some 680) (labelSettings False),
      FillText ''25%'' (Some 250) (Some 970) (labelSettings False)]"
    by simp
  have styles: "emphasized (FillText ''25%'' (Some 750) (Some 970) (labelSettings True)) \<and>
      normal (FillText ''25%'' (Some 250) (Some 680) (labelSettings False))"
    by (simp add: emphasized_def normal_def labelSettings_def highestFontSize_def
        normalFontSize_def highestColor_def normalColor_def numberToString_36 numberToString_40)
  have "hd animalNames = ''lobo''" by (simp add: animalNames_def)
  with k k' part1 part2 styles show ?thesis by blast
qed

text \<open>
  C5, amended: for every dataset with exactly the four names of its shape and at least
  one value greater than \<open>-1\<close>, when the base image loads, the render draws four labels
  of which exactly one is in the emphasized style (font size 40, yellow) and three are in
  the normal style (font size 36, white); when all four values are equal (and greater
  than \<open>-1\<close>), the emphasized label is the first one drawn, that of the first entry of
  the dataset, and when the names arrive in the declared order of the shape it is the
  label of the first declared name (\<open>lobo\<close> at (250, 680), \<open>pensante\<close> at (500, 310)).
\<close>

theorem exactly_one_label_emphasized:
  assumes "wellformed d" and "\<exists>e\<in>set d. - 1 < snd e" and "loadImage url = Inr img"
  shows "(fst ` set d = {''lobo'', ''aguia'', ''tubarao'', ''gato''} \<longrightarrow>
           (\<exists>u. generateAnimalImage loadImage url d = Inr u \<and> length (labels u) = 4 \<and>
                length (filter emphasized (labels u)) = 1 \<and>
                length (filter normal (labels u)) = 3 \<and>
                ((\<forall>e\<in>set d. snd e = snd (hd d)) \<longrightarrow> emphasized (hd (labels u))) \<and>
                ((\<forall>e\<in>set d. snd e = snd (hd d)) \<longrightarrow> map fst d = animalNames \<longrightarrow>
                   hd (labels u) =
                     FillText (numberToString (snd (hd d)) @ ''%'') (Some 250) (Some 680)
                       (labelSettings True))))
       \<and> (fst ` set d = {''pensante'', ''atuante'', ''razao'', ''emocao''} \<longrightarrow>
           (\<exists>u. generateBrainImage loadImage url d = Inr u \<and> length (labels u) = 4 \<and>
                length (filter emphasized (labels u)) = 1 \<and>
                length (filter normal (labels u)) = 3 \<and>
                ((\<forall>e\<in>set d. snd e = snd (hd d)) \<longrightarrow> emphasized (hd (labels u))) \<and>
                ((\<forall>e\<in>set d. snd e = snd (hd d)) \<longrightarrow> map fst d = brainNames \<longrightarrow>
                   hd (labels u) =
                     FillText (numberToString (snd (hd d)) @ ''%'') (Some 500) (Some 310)
                       (labelSettings True))))"
proof (intro conjI impI)
  assume names: "fst ` set d = {''lobo'', ''aguia'', ''tubarao'', ''gato''}"
  then have "fst ` set d \<subseteq> {''lobo'', ''aguia'', ''tubarao'', ''gato''}" by simp
  from animal_renders[where loadImage = loadImage and url = url, OF assms(3) this]
  obtain u where u: "generateAnimalImage loadImage url d = Inr u" by blast
  then have r: "renderBody loadImage animalPositions url d = Inr u"
    by (simp add: generateAnimalImage_Inr_iff)
  have "distinct (map fst d)" using assms(1) by (simp add: wellformed_def)
  moreover have "distinct [''lobo'', ''aguia'', ''tubarao'', ''gato'']" by simp
  ultimately have len: "length d = 4" using names by (intro four_names)
  have first: "hd (labels u) =
      FillText (numberToString (snd (hd d)) @ ''%'') (Some 250) (Some 680) (labelSettings True)"
    if eq: "\<forall>e\<in>set d. snd e = snd (hd d)" and ord: "map fst d = animalNames"
  proof -
    from ord have "d \<noteq> []" by (auto simp: animalNames_def)
    with ord have "fst (hd d) = ''lobo''" by (cases d) (simp_all add: animalNames_def)
    with first_label_of_equal_values[OF assms(2) eq r] show ?thesis
      by (simp add: labelCall_def lookup_literal_def animalPositions_def coordinates_def)
  qed
  from one_emphasized_body[OF assms(1,2) r] u len first
  show "\<exists>u. generateAnimalImage loadImage url d = Inr u \<and> length (labels u) = 4 \<and>
          length (filter emphasized (labels u)) = 1 \<and> length (filter normal (labels u)) = 3 \<and>
          ((\<forall>e\<in>set d. snd e = snd (hd d)) \<longrightarrow> emphasized (hd (labels u))) \<and>
          ((\<forall>e\<in>set d. snd e = snd (hd d)) \<longrightarrow> map fst d = animalNames \<longrightarrow>
             hd (labels u) =
               FillText (numberToString (snd (hd d)) @ ''%'') (Some 250) (Some 680)
                 (labelSettings True))"
    by simp
next
  assume names: "fst ` set d = {''pensante'', ''atuante'', ''razao'', ''emocao''}"
  then have "fst ` set d \<subseteq> {''pensante'', ''atuante'', ''razao'', ''emocao''}" by simp
  from brain_renders[where loadImage = loadImage and url = url, OF assms(3) this]
  obtain u where u: "generateBrainImage loadImage url d = Inr u" by blast
  then have r: "renderBody loadImage brainPositions url d = Inr u"
    by (simp add: generateBrainImage_Inr_iff)
  have "distinct (map fst d)" using assms(1) by (simp add: wellformed_def)
  moreover have "distinct [''pensante'', ''atuante'', ''razao'', ''emocao'']" by simp
  ultimately have len: "length d = 4" using names by (intro four_names)
  have first: "hd (labels u) =
      FillText (numberToString (snd (hd d)) @ ''%'') (Some 500) (Some 310) (labelSettings True)"
    if eq: "\<forall>e\<in>set d. snd e = snd (hd d)" and ord: "map fst d = brainNames"
  proof -
    from ord have "d \<noteq> []" by (auto simp: brainNames_def)
    with ord have "fst (hd d) = ''pensante''" by (cases d) (simp_all add: brainNames_def)
    with first_label_of_equal_values[OF assms(2) eq r] show ?thesis
      by (simp add: labelCall_def lookup_literal_def brainPositions_def coordinates_def)
  qed
  from one_emphasized_body[OF assms(1,2) r] u len first
  show "\<exists>u. generateBrainImage loadImage url d = Inr u \<and> length (labels u) = 4 \<and>
          length (filter emphasized (labels u)) = 1 \<and> length (filter normal (labels u)) = 3 \<and>
          ((\<forall>e\<in>set d. snd e = snd (hd d)) \<longrightarrow> emphasized (hd (labels u))) \<and>
          ((\<forall>e\<in>set d. snd e = snd (hd d)) \<longrightarrow> map fst d = brainNames \<longrightarrow>
             hd (labels u) =
               FillText (numberToString (snd (hd d)) @ ''%'') (Some 500) (Some 310)
                 (labelSettings True))"
    by simp
qed

theorem exactly_one_label_emphasized_witness:
  "wellformed allEqual \<and> (\<exists>e\<in>set allEqual. - 1 < snd e) \<and>
   loadsAlways BASE_IMAGE_ANIMALS_URL = Inr sampleImage \<and>
   fst ` set allEqual = {''lobo'', ''aguia'', ''tubarao'', ''gato''} \<and>
   map fst allEqual = animalNames \<and>
   (\<exists>u. generateAnimalImage loadsAlways BASE_IMAGE_ANIMALS_URL allEqual = Inr u \<and>
        length (labels u) = 4 \<and> length (filter emphasized (labels u)) = 1 \<and>
        length (filter normal (labels u)) = 3 \<and> emphasized (hd (labels u)) \<and>
        hd (labels u) = FillText ''25%'' (Some 250) (Some 680) (labelSettings True))"
proof -
  have w: "wellformed allEqual" by (simp add: allEqual_def wellformed_def)
  have v: "\<exists>e\<in>set allEqual. - 1 < snd e" by (simp add: allEqual_def)
  have l: "loadsAlways BASE_IMAGE_ANIMALS_URL = Inr sampleImage" by (simp add: loadsAlways_def)
  have k: "fst ` set allEqual = {''lobo'', ''aguia'', ''tubarao'', ''gato''}"
    by (auto simp: allEqual_def)
  have q: "\<forall>e\<in>set allEqual. snd e = snd (hd allEqual)" by (simp add: allEqual_def)
  have ord: "map fst allEqual = animalNames" by (simp add: allEqual_def animalNames_def)
  have t: "numberToString (snd (hd allEqual)) @ ''%'' = ''25%''"
    by (simp add: allEqual_def numberToString_25)
  from exactly_one_label_emphasized
      [where d = allEqual and loadImage = loadsAlways and url = BASE_IMAGE_ANIMALS_URL, OF w v l]
    k q ord
  obtain u where "generateAnimalImage loadsAlways BASE_IMAGE_ANIMALS_URL allEqual = Inr u"
    "length (labels u) = 4" "length (filter emphasized (labels u)) = 1"
    "length (filter normal (labels u)) = 3" "emphasized (hd (labels u))"
    "hd (labels u) = FillText (numberToString (snd (hd allEqual)) @ ''%'') (Some 250) (Some 680)
                       (labelSettings True)"
    by blast
  with w v l k ord t show ?thesis by (intro conjI exI[of _ u]) simp_all
qed



subsection \<open>The drawing surface\<close>



subsection \<open>The composite operation\<close>

text \<open>
  C4. For a POST request that carries both datasets, the handler joins the two renders:
  if exactly one of them fails, the response is the failure response (status 500) with
  the message of the render that failed, and the image of the other render is not part
  of it; whenever either render fails the response is a failure response without images.
\<close>

theorem handler_all_or_nothing:
  assumes "req_method req = ''POST''" and "body req = Body b"
    and "animalData b = Some animal" and "brainData b = Some brain"
  shows "(generateAnimalImage loadImage BASE_IMAGE_ANIMALS_URL animal = Inr animalImage \<longrightarrow>
          generateBrainImage loadImage BASE_IMAGE_BRAIN_URL brain = Inl e \<longrightarrow>
            handler loadImage order req =
              \<lparr>status = 500, json = FailureJson ''Failed to generate images.'' (message e)\<rparr>)
       \<and> (generateAnimalImage loadImage BASE_IMAGE_ANIMALS_URL animal = Inl e \<longrightarrow>
          generateBrainImage loadImage BASE_IMAGE_BRAIN_URL brain = Inr brainImage \<longrightarrow>
            handler loadImage order req =
              \<lparr>status = 500, json = FailureJson ''Failed to generate images.'' (message e)\<rparr>)
       \<and> (isl (generateAnimalImage loadImage BASE_IMAGE_ANIMALS_URL animal) \<or>
          isl (generateBrainImage loadImage BASE_IMAGE_BRAIN_URL brain) \<longrightarrow>
            (\<exists>details. handler loadImage order req =
               \<lparr>status = 500, json = FailureJson ''Failed to generate images.'' details\<rparr>))"
proof (intro conjI impI)
  assume "generateAnimalImage loadImage BASE_IMAGE_ANIMALS_URL animal = Inr animalImage"
    and "generateBrainImage loadImage BASE_IMAGE_BRAIN_URL brain = Inl e"
  then show "handler loadImage order req =
      \<lparr>status = 500, json = FailureJson ''Failed to generate images.'' (message e)\<rparr>"
    by (simp add: handler_post[OF assms] promise_all_def)
next
  assume "generateAnimalImage loadImage BASE_IMAGE_ANIMALS_URL animal = Inl e"
    and "generateBrainImage loadImage BASE_IMAGE_BRAIN_URL brain = Inr brainImage"
  then show "handler loadImage order req =
      \<lparr>status = 500, json = FailureJson ''Failed to generate images.'' (message e)\<rparr>"
    by (simp add: handler_post[OF assms] promise_all_def)
next
  assume "isl (generateAnimalImage loadImage BASE_IMAGE_ANIMALS_URL animal) \<or>
          isl (generateBrainImage loadImage BASE_IMAGE_BRAIN_URL brain)"
  then show "\<exists>details. handler loadImage order req =
               \<lparr>status = 500, json = FailureJson ''Failed to generate images.'' details\<rparr>"
    by (cases "generateAnimalImage loadImage BASE_IMAGE_ANIMALS_URL animal";
        cases "generateBrainImage loadImage BASE_IMAGE_BRAIN_URL brain")
       (simp_all add: handler_post[OF assms] promise_all_def)
qed

theorem handler_all_or_nothing_witness:
  "req_method sampleRequest = ''POST'' \<and>
   \<not> isl (generateAnimalImage brainDecodeFails BASE_IMAGE_ANIMALS_URL scenarioA) \<and>
   generateBrainImage brainDecodeFails BASE_IMAGE_BRAIN_URL scenarioB =
     Inl (JsError ''Error during brain image processing: Unsupported image type'') \<and>
   handler brainDecodeFails AnimalFirst sampleRequest =
     \<lparr>status = 500, json = FailureJson ''Failed to generate images.''
        ''Error during brain image processing: Unsupported image type''\<rparr>"
proof -
  have m: "req_method sampleRequest = ''POST''" by (simp add: sampleRequest_def)
  have b: "body sampleRequest = Body \<lparr>animalData = Some scenarioA, brainData = Some scenarioB\<rparr>"
    by (simp add: sampleRequest_def)
  have l: "brainDecodeFails BASE_IMAGE_ANIMALS_URL = Inr sampleImage"
    by (simp add: brainDecodeFails_def urls_differ)
  have "fst ` set scenarioA \<subseteq> {''lobo'', ''aguia'', ''tubarao'', ''gato''}"
    by (simp add: scenarioA_def)
  from animal_renders[where loadImage = brainDecodeFails, OF l this] obtain u where
    u: "generateAnimalImage brainDecodeFails BASE_IMAGE_ANIMALS_URL scenarioA = Inr u" by blast
  have f: "generateBrainImage brainDecodeFails BASE_IMAGE_BRAIN_URL scenarioB =
     Inl (JsError ''Error during brain image processing: Unsupported image type'')"
    by (simp add: generateBrainImage_def renderBody_def brainDecodeFails_def)
  show ?thesis
    using m u f handler_all_or_nothing
      [where req = sampleRequest and loadImage = brainDecodeFails and animal = scenarioA
         and brain = scenarioB and animalImage = u and order = AnimalFirst
         and e = "JsError ''Error during brain image processing: Unsupported image type''",
       OF m b]
    by simp
qed

end
